theory Spec2Isabelle
  imports Complex_Main
begin

text \<open>
  The card schema of \<^verbatim>\<open>models.py\<close> is declarative: the classes list their fields and
  types, and the validation library interprets them. The validators below spell that
  interpretation out, for the constructs the models use: required fields and fields with
  a default, \<^verbatim>\<open>str\<close>, \<^verbatim>\<open>float\<close>, \<^verbatim>\<open>Optional\<close>, \<^verbatim>\<open>Literal\<close> and \<^verbatim>\<open>List\<close> in the
  library's default (lax) mode, \<^verbatim>\<open>extra = "forbid"\<close>, unions discriminated by \<^verbatim>\<open>kind\<close>,
  and a model validator that runs after the fields. \<^verbatim>\<open>generate_card\<close> of
  \<^verbatim>\<open>llm_client.py\<close> and the endpoint of \<^verbatim>\<open>main.py\<close> are translated as they are written.
\<close>

section \<open>JSON values and validated card documents\<close>

text \<open>
  The value that \<^verbatim>\<open>json.loads\<close> hands to the validator: a Python object built from
  \<^verbatim>\<open>None\<close>, \<^verbatim>\<open>bool\<close>, \<^verbatim>\<open>int\<close>, \<^verbatim>\<open>float\<close>, \<^verbatim>\<open>str\<close>, \<^verbatim>\<open>list\<close> and \<^verbatim>\<open>dict\<close>. A dict is an
  association list in insertion order; a Python dict has distinct keys, and a lookup in
  the model reads the first binding of a key. A float is modelled by the real number it
  denotes; the non-finite IEEE values (\<^verbatim>\<open>inf\<close>, \<^verbatim>\<open>nan\<close>) and the rounding of integers
  beyond 53 bits are outside the model.
\<close>

datatype json =
    JNull
  | JBool bool
  | JInt int
  | JFloat real
  | JStr string
  | JArr "json list"
  | JObj "(string \<times> json) list"

text \<open>
  The instances of the classes of \<^verbatim>\<open>models.py\<close>, one constructor per class. A field of
  a \<^verbatim>\<open>Literal\<close> type (\<^verbatim>\<open>chartType\<close>, \<^verbatim>\<open>direction\<close>) holds the string itself;
  \<^verbatim>\<open>kind\<close> is fixed by the class and is the constructor.
\<close>

datatype ChartSeries = ChartSeries (series_name: string) (series_values: "real list")

datatype Node =
    CardNode "Node list"
  | TitleNode string
  | SubtitleNode string
  | TextNode string
  | BulletsNode "string list"
  | TableNode "string list" "string list list"
  | ChartNode string "string list" "ChartSeries list"
  | ResizableLayoutNode string "Panel list"
and Panel =
    Panel (defaultSize: "real option") (minSize: "real option") (panel_children: "Node list")

section \<open>Validation errors\<close>

text \<open>
  A validation error of the library is a list of line errors, each with the location of
  the offending value (field names, list indices and, below a discriminated union, the
  tag of the chosen member) and the kind of the error. The validators collect the
  errors of all fields and all list items; a value is built only when there is none.
\<close>

datatype loc_item = Key string | Idx nat

datatype error_type =
    Missing
  | Extra_forbidden
  | Model_type
  | String_type
  | List_type
  | Float_type
  | Float_parsing
  | Literal_error
  | Union_tag_not_found
  | Union_tag_invalid
  | Value_error string

type_synonym line_error = "loc_item list \<times> error_type"

type_synonym 'a result = "line_error list + 'a"

definition errors_of :: "'a result \<Rightarrow> line_error list" where
  "errors_of r = (case r of Inl es \<Rightarrow> es | Inr _ \<Rightarrow> [])"

definition at_loc :: "loc_item \<Rightarrow> line_error list \<Rightarrow> line_error list" where
  "at_loc i es = map (\<lambda>(l, t). (i # l, t)) es"

definition inside :: "loc_item \<Rightarrow> 'a result \<Rightarrow> 'a result" where
  "inside i r = (case r of Inl es \<Rightarrow> Inl (at_loc i es) | Inr x \<Rightarrow> Inr x)"

section \<open>Validators of the field types\<close>

text \<open>\<^verbatim>\<open>str\<close>: only a string is a string (no coercion of numbers).\<close>

definition validate_str :: "json \<Rightarrow> string result" where
  "validate_str v = (case v of JStr s \<Rightarrow> Inr s | _ \<Rightarrow> Inl [([], String_type)])"

text \<open>
  \<^verbatim>\<open>float\<close> in the library's default (lax) mode, which is the mode of every model of
  \<^verbatim>\<open>models.py\<close> (none of them sets \<^verbatim>\<open>strict\<close>): a float is taken as it is, an integer
  is converted, a boolean becomes 0.0 or 1.0, and a string is parsed as a number. The
  parser below reads the decimal literals that the library's conversion table gives for
  this coercion, \<^verbatim>\<open>[0-9]+(\.[0-9]+)?\<close>; any other string counts as not a number here.
\<close>

definition digit_of :: "char \<Rightarrow> nat option" where
  "digit_of c = map_of
     [(CHR ''0'', 0), (CHR ''1'', 1), (CHR ''2'', 2), (CHR ''3'', 3), (CHR ''4'', 4),
      (CHR ''5'', 5), (CHR ''6'', 6), (CHR ''7'', 7), (CHR ''8'', 8), (CHR ''9'', 9)] c"

fun digits_value :: "nat \<Rightarrow> string \<Rightarrow> nat option" where
  "digits_value acc [] = Some acc"
| "digits_value acc (c # cs) =
     (case digit_of c of None \<Rightarrow> None | Some d \<Rightarrow> digits_value (10 * acc + d) cs)"

definition is_digit :: "char \<Rightarrow> bool" where
  "is_digit c = (digit_of c \<noteq> None)"

definition str_as_float :: "string \<Rightarrow> real option" where
  "str_as_float s =
     (let ip = takeWhile is_digit s; rest = dropWhile is_digit s
      in if ip = [] then None
         else case digits_value 0 ip of
           None \<Rightarrow> None
         | Some n \<Rightarrow>
            (case rest of
               [] \<Rightarrow> Some (real n)
             | c # fp \<Rightarrow>
                 if c = CHR ''.'' \<and> fp \<noteq> [] then
                   (case digits_value 0 fp of
                      None \<Rightarrow> None
                    | Some m \<Rightarrow> Some (real n + real m / 10 ^ length fp))
                 else None))"

definition validate_float :: "json \<Rightarrow> real result" where
  "validate_float v = (case v of
       JFloat x \<Rightarrow> Inr x
     | JStr s \<Rightarrow> (case str_as_float s of Some x \<Rightarrow> Inr x | None \<Rightarrow> Inl [([], Float_parsing)])
     | JBool b \<Rightarrow> Inr (if b then 1 else 0)
     | JInt i \<Rightarrow> Inr (real_of_int i)
     | _ \<Rightarrow> Inl [([], Float_type)])"

text \<open>\<^verbatim>\<open>Optional[float]\<close>: \<^verbatim>\<open>None\<close> is accepted, anything else goes to the float validator.\<close>

definition validate_optional_float :: "json \<Rightarrow> real option result" where
  "validate_optional_float v = (case v of
       JNull \<Rightarrow> Inr None
     | _ \<Rightarrow> (case validate_float v of Inl es \<Rightarrow> Inl es | Inr x \<Rightarrow> Inr (Some x)))"

text \<open>\<^verbatim>\<open>Literal[...]\<close>: the value must be one of the listed strings.\<close>

definition validate_literal :: "string list \<Rightarrow> json \<Rightarrow> string result" where
  "validate_literal allowed v = (case v of
       JStr s \<Rightarrow> if s \<in> set allowed then Inr s else Inl [([], Literal_error)]
     | _ \<Rightarrow> Inl [([], Literal_error)])"

text \<open>
  \<^verbatim>\<open>List[...]\<close>: the results of the items, in order. The errors of item \<open>i\<close> are located
  below index \<open>i\<close>.
\<close>

fun collect_from :: "nat \<Rightarrow> 'a result list \<Rightarrow> 'a list result" where
  "collect_from i [] = Inr []"
| "collect_from i (r # rs) =
     (case (r, collect_from (Suc i) rs) of
        (Inr x, Inr xs) \<Rightarrow> Inr (x # xs)
      | (_, rest) \<Rightarrow> Inl (at_loc (Idx i) (errors_of r) @ errors_of rest))"

definition validate_list :: "(json \<Rightarrow> 'a result) \<Rightarrow> json \<Rightarrow> 'a list result" where
  "validate_list item v = (case v of
       JArr xs \<Rightarrow> collect_from 0 (map item xs)
     | _ \<Rightarrow> Inl [([], List_type)])"

section \<open>Validation of a model\<close>

text \<open>
  A required field is looked up in the dict: a missing key is an error, a present one
  is validated, its errors located below the field name. A field with a default takes
  the default when the key is missing. With \<^verbatim>\<open>extra = "forbid"\<close> every key of the dict
  that is not a declared field is an error.
\<close>

definition required :: "(string \<times> json) list \<Rightarrow> string \<Rightarrow> (json \<Rightarrow> 'a result) \<Rightarrow> 'a result" where
  "required kvs k validator = (case map_of kvs k of
       None \<Rightarrow> Inl [([Key k], Missing)]
     | Some v \<Rightarrow> inside (Key k) (validator v))"

definition with_default :: "(string \<times> json) list \<Rightarrow> string \<Rightarrow> 'a \<Rightarrow> (json \<Rightarrow> 'a result) \<Rightarrow> 'a result" where
  "with_default kvs k d validator = (case map_of kvs k of
       None \<Rightarrow> Inr d
     | Some v \<Rightarrow> inside (Key k) (validator v))"

definition extra_forbid :: "string list \<Rightarrow> (string \<times> json) list \<Rightarrow> line_error list" where
  "extra_forbid fields kvs = map (\<lambda>k. ([Key k], Extra_forbidden)) (filter (\<lambda>k. k \<notin> set fields) (map fst kvs))"

lemma required_cong [fundef_cong]:
  "kvs = kvs' \<Longrightarrow> k = k' \<Longrightarrow> (\<And>v. map_of kvs' k' = Some v \<Longrightarrow> f v = g v)
   \<Longrightarrow> required kvs k f = required kvs' k' g"
  by (simp add: required_def split: option.split)

lemma validate_list_cong [fundef_cong]:
  "v = v' \<Longrightarrow> (\<And>xs x. v' = JArr xs \<Longrightarrow> x \<in> set xs \<Longrightarrow> f x = g x)
   \<Longrightarrow> validate_list f v = validate_list g v'"
  by (cases v') (simp_all add: validate_list_def cong: map_cong)

section \<open>The models of models.py\<close>

text \<open>The declared fields of each class, in declaration order.\<close>

definition TitleNode_fields :: "string list" where
  "TitleNode_fields = [''kind'', ''text'']"

definition SubtitleNode_fields :: "string list" where
  "SubtitleNode_fields = [''kind'', ''text'']"

definition TextNode_fields :: "string list" where
  "TextNode_fields = [''kind'', ''text'']"

definition BulletsNode_fields :: "string list" where
  "BulletsNode_fields = [''kind'', ''items'']"

definition TableNode_fields :: "string list" where
  "TableNode_fields = [''kind'', ''columns'', ''rows'']"

definition ChartSeries_fields :: "string list" where
  "ChartSeries_fields = [''name'', ''values'']"

definition ChartNode_fields :: "string list" where
  "ChartNode_fields = [''kind'', ''chartType'', ''categories'', ''series'']"

definition Panel_fields :: "string list" where
  "Panel_fields = [''defaultSize'', ''minSize'', ''children'']"

definition ResizableLayoutNode_fields :: "string list" where
  "ResizableLayoutNode_fields = [''kind'', ''direction'', ''panels'']"

definition CardNode_fields :: "string list" where
  "CardNode_fields = [''kind'', ''children'']"

definition TitleNode_validate :: "json \<Rightarrow> Node result" where
  "TitleNode_validate v = (case v of
       JObj kvs \<Rightarrow>
         (let kind = required kvs ''kind'' (validate_literal [''title'']);
              t = required kvs ''text'' validate_str;
              extra = extra_forbid TitleNode_fields kvs
          in case (kind, t, extra) of
               (Inr _, Inr s, []) \<Rightarrow> Inr (TitleNode s)
             | _ \<Rightarrow> Inl (errors_of kind @ errors_of t @ extra))
     | _ \<Rightarrow> Inl [([], Model_type)])"

definition SubtitleNode_validate :: "json \<Rightarrow> Node result" where
  "SubtitleNode_validate v = (case v of
       JObj kvs \<Rightarrow>
         (let kind = required kvs ''kind'' (validate_literal [''subtitle'']);
              t = required kvs ''text'' validate_str;
              extra = extra_forbid SubtitleNode_fields kvs
          in case (kind, t, extra) of
               (Inr _, Inr s, []) \<Rightarrow> Inr (SubtitleNode s)
             | _ \<Rightarrow> Inl (errors_of kind @ errors_of t @ extra))
     | _ \<Rightarrow> Inl [([], Model_type)])"

definition TextNode_validate :: "json \<Rightarrow> Node result" where
  "TextNode_validate v = (case v of
       JObj kvs \<Rightarrow>
         (let kind = required kvs ''kind'' (validate_literal [''text'']);
              t = required kvs ''text'' validate_str;
              extra = extra_forbid TextNode_fields kvs
          in case (kind, t, extra) of
               (Inr _, Inr s, []) \<Rightarrow> Inr (TextNode s)
             | _ \<Rightarrow> Inl (errors_of kind @ errors_of t @ extra))
     | _ \<Rightarrow> Inl [([], Model_type)])"

definition BulletsNode_validate :: "json \<Rightarrow> Node result" where
  "BulletsNode_validate v = (case v of
       JObj kvs \<Rightarrow>
         (let kind = required kvs ''kind'' (validate_literal [''bullets'']);
              items = required kvs ''items'' (validate_list validate_str);
              extra = extra_forbid BulletsNode_fields kvs
          in case (kind, items, extra) of
               (Inr _, Inr xs, []) \<Rightarrow> Inr (BulletsNode xs)
             | _ \<Rightarrow> Inl (errors_of kind @ errors_of items @ extra))
     | _ \<Rightarrow> Inl [([], Model_type)])"

text \<open>\<^verbatim>\<open>TableNode\<close> declares its three fields and no validator of its own.\<close>

definition TableNode_validate :: "json \<Rightarrow> Node result" where
  "TableNode_validate v = (case v of
       JObj kvs \<Rightarrow>
         (let kind = required kvs ''kind'' (validate_literal [''table'']);
              columns = required kvs ''columns'' (validate_list validate_str);
              rows = required kvs ''rows'' (validate_list (validate_list validate_str));
              extra = extra_forbid TableNode_fields kvs
          in case (kind, columns, rows, extra) of
               (Inr _, Inr cols, Inr rs, []) \<Rightarrow> Inr (TableNode cols rs)
             | _ \<Rightarrow> Inl (errors_of kind @ errors_of columns @ errors_of rows @ extra))
     | _ \<Rightarrow> Inl [([], Model_type)])"

definition ChartSeries_validate :: "json \<Rightarrow> ChartSeries result" where
  "ChartSeries_validate v = (case v of
       JObj kvs \<Rightarrow>
         (let name = required kvs ''name'' validate_str;
              vals = required kvs ''values'' (validate_list validate_float);
              extra = extra_forbid ChartSeries_fields kvs
          in case (name, vals, extra) of
               (Inr n, Inr xs, []) \<Rightarrow> Inr (ChartSeries n xs)
             | _ \<Rightarrow> Inl (errors_of name @ errors_of vals @ extra))
     | _ \<Rightarrow> Inl [([], Model_type)])"

text \<open>
  \<^verbatim>\<open>ChartNode.validate_series_lengths\<close>, the validator that runs after the fields of a
  chart have been validated: \<open>Some msg\<close> is the \<^verbatim>\<open>ValueError\<close> it raises, \<open>None\<close> is
  its normal return. \<open>series_loop\<close> is the \<^verbatim>\<open>for\<close> loop over the series.
\<close>

fun series_loop :: "nat \<Rightarrow> ChartSeries list \<Rightarrow> string option" where
  "series_loop category_count [] = None"
| "series_loop category_count (s # ss) =
     (if length (series_values s) \<noteq> category_count
      then Some ''every series.values array must have the same length as categories''
      else series_loop category_count ss)"

definition validate_series_lengths :: "string list \<Rightarrow> ChartSeries list \<Rightarrow> string option" where
  "validate_series_lengths categories series_list =
     (if categories = [] \<and> series_list \<noteq> []
      then Some ''categories must not be empty when series are provided''
      else series_loop (length categories) series_list)"

definition ChartNode_validate :: "json \<Rightarrow> Node result" where
  "ChartNode_validate v = (case v of
       JObj kvs \<Rightarrow>
         (let kind = required kvs ''kind'' (validate_literal [''chart'']);
              chartType = required kvs ''chartType'' (validate_literal [''bar'', ''line'']);
              categories = required kvs ''categories'' (validate_list validate_str);
              series = required kvs ''series'' (validate_list ChartSeries_validate);
              extra = extra_forbid ChartNode_fields kvs
          in case (kind, chartType, categories, series, extra) of
               (Inr _, Inr ct, Inr cats, Inr ss, []) \<Rightarrow>
                 (case validate_series_lengths cats ss of
                    Some msg \<Rightarrow> Inl [([], Value_error msg)]
                  | None \<Rightarrow> Inr (ChartNode ct cats ss))
             | _ \<Rightarrow> Inl (errors_of kind @ errors_of chartType @ errors_of categories
                         @ errors_of series @ extra))
     | _ \<Rightarrow> Inl [([], Model_type)])"

lemma size_field_item:
  "map_of kvs k = Some (JArr xs) \<Longrightarrow> x \<in> set xs \<Longrightarrow> size x < size (JObj kvs)"
proof (induction kvs)
  case Nil
  then show ?case by simp
next
  case (Cons kv kvs)
  obtain k' v' where kv: "kv = (k', v')" by (cases kv)
  show ?case
  proof (cases "k' = k")
    case True
    with Cons.prems kv have "v' = JArr xs" by simp
    moreover from Cons.prems(2) have "size x < Suc (size_list size xs)"
      by (induction xs) auto
    ultimately show ?thesis using kv by simp
  next
    case False
    with Cons kv show ?thesis by simp
  qed
qed

text \<open>
  The recursive part of the schema. \<^verbatim>\<open>Node\<close> and \<^verbatim>\<open>NonLayoutNode\<close> are unions
  discriminated by \<^verbatim>\<open>kind\<close>: the input must be a dict, its \<^verbatim>\<open>kind\<close> selects the member,
  and the member validates the whole dict; a missing \<^verbatim>\<open>kind\<close> and a \<^verbatim>\<open>kind\<close> that is
  not the tag of a member are errors at the position of the union. \<^verbatim>\<open>NonLayoutNode\<close>
  has no member for \<^verbatim>\<open>resizableLayout\<close>.
\<close>

function Node_validate :: "json \<Rightarrow> Node result"
  and NonLayoutNode_validate :: "json \<Rightarrow> Node result"
  and CardNode_validate :: "json \<Rightarrow> Node result"
  and ResizableLayoutNode_validate :: "json \<Rightarrow> Node result"
  and Panel_validate :: "json \<Rightarrow> Panel result"
where
  "Node_validate v = (case v of
       JObj kvs \<Rightarrow>
         (case map_of kvs ''kind'' of
            None \<Rightarrow> Inl [([], Union_tag_not_found)]
          | Some tag \<Rightarrow>
              if tag = JStr ''card'' then inside (Key ''card'') (CardNode_validate v)
              else if tag = JStr ''title'' then inside (Key ''title'') (TitleNode_validate v)
              else if tag = JStr ''subtitle'' then inside (Key ''subtitle'') (SubtitleNode_validate v)
              else if tag = JStr ''text'' then inside (Key ''text'') (TextNode_validate v)
              else if tag = JStr ''bullets'' then inside (Key ''bullets'') (BulletsNode_validate v)
              else if tag = JStr ''table'' then inside (Key ''table'') (TableNode_validate v)
              else if tag = JStr ''chart'' then inside (Key ''chart'') (ChartNode_validate v)
              else if tag = JStr ''resizableLayout''
                then inside (Key ''resizableLayout'') (ResizableLayoutNode_validate v)
              else Inl [([], Union_tag_invalid)])
     | _ \<Rightarrow> Inl [([], Model_type)])"
| "NonLayoutNode_validate v = (case v of
       JObj kvs \<Rightarrow>
         (case map_of kvs ''kind'' of
            None \<Rightarrow> Inl [([], Union_tag_not_found)]
          | Some tag \<Rightarrow>
              if tag = JStr ''title'' then inside (Key ''title'') (TitleNode_validate v)
              else if tag = JStr ''subtitle'' then inside (Key ''subtitle'') (SubtitleNode_validate v)
              else if tag = JStr ''text'' then inside (Key ''text'') (TextNode_validate v)
              else if tag = JStr ''bullets'' then inside (Key ''bullets'') (BulletsNode_validate v)
              else if tag = JStr ''table'' then inside (Key ''table'') (TableNode_validate v)
              else if tag = JStr ''chart'' then inside (Key ''chart'') (ChartNode_validate v)
              else if tag = JStr ''card'' then inside (Key ''card'') (CardNode_validate v)
              else Inl [([], Union_tag_invalid)])
     | _ \<Rightarrow> Inl [([], Model_type)])"
| "CardNode_validate v = (case v of
       JObj kvs \<Rightarrow>
         (let kind = required kvs ''kind'' (validate_literal [''card'']);
              children = required kvs ''children'' (validate_list Node_validate);
              extra = extra_forbid CardNode_fields kvs
          in case (kind, children, extra) of
               (Inr _, Inr cs, []) \<Rightarrow> Inr (CardNode cs)
             | _ \<Rightarrow> Inl (errors_of kind @ errors_of children @ extra))
     | _ \<Rightarrow> Inl [([], Model_type)])"
| "ResizableLayoutNode_validate v = (case v of
       JObj kvs \<Rightarrow>
         (let kind = required kvs ''kind'' (validate_literal [''resizableLayout'']);
              direction = required kvs ''direction'' (validate_literal [''horizontal'', ''vertical'']);
              panels = required kvs ''panels'' (validate_list Panel_validate);
              extra = extra_forbid ResizableLayoutNode_fields kvs
          in case (kind, direction, panels, extra) of
               (Inr _, Inr d, Inr ps, []) \<Rightarrow> Inr (ResizableLayoutNode d ps)
             | _ \<Rightarrow> Inl (errors_of kind @ errors_of direction @ errors_of panels @ extra))
     | _ \<Rightarrow> Inl [([], Model_type)])"
| "Panel_validate v = (case v of
       JObj kvs \<Rightarrow>
         (let defaultSize = with_default kvs ''defaultSize'' None validate_optional_float;
              minSize = with_default kvs ''minSize'' None validate_optional_float;
              children = required kvs ''children'' (validate_list NonLayoutNode_validate);
              extra = extra_forbid Panel_fields kvs
          in case (defaultSize, minSize, children, extra) of
               (Inr d, Inr m, Inr cs, []) \<Rightarrow> Inr (Panel d m cs)
             | _ \<Rightarrow> Inl (errors_of defaultSize @ errors_of minSize @ errors_of children @ extra))
     | _ \<Rightarrow> Inl [([], Model_type)])"
  by pat_completeness auto

termination
  by (relation "measure (\<lambda>x. case x of
         Inl (Inl v) \<Rightarrow> 2 * size v + 1
       | Inl (Inr v) \<Rightarrow> 2 * size v + 1
       | Inr (Inl v) \<Rightarrow> 2 * size v
       | Inr (Inr (Inl v)) \<Rightarrow> 2 * size v
       | Inr (Inr (Inr v)) \<Rightarrow> 2 * size v)")
     (auto dest: size_field_item)

declare Node_validate.simps [simp del]
declare NonLayoutNode_validate.simps [simp del]
declare CardNode_validate.simps [simp del]
declare ResizableLayoutNode_validate.simps [simp del]
declare Panel_validate.simps [simp del]

section \<open>generate\_card and the endpoint\<close>

text \<open>
  Exceptions as values. The text of a message is a list of parts: literal text, and the
  rendering \<^verbatim>\<open>str(exc)\<close> of the library's validation error, which the model does not
  spell out. \<^verbatim>\<open>ValueError\<close> carries its message and its \<^verbatim>\<open>__cause__\<close>
  (\<^verbatim>\<open>raise ... from exc\<close>).
\<close>

datatype msg_part = Text string | Str_of_ValidationError "line_error list"

type_synonym message = "msg_part list"

datatype exception =
    ValidationError "line_error list"
  | ValueError message "exception option"
  | RuntimeError message

text \<open>\<^verbatim>\<open>CardNode.model_validate(raw)\<close>: the root is validated as a \<^verbatim>\<open>CardNode\<close>, not as a union.\<close>

definition CardNode_model_validate :: "json \<Rightarrow> exception + Node" where
  "CardNode_model_validate raw = (case CardNode_validate raw of
       Inl errs \<Rightarrow> Inl (ValidationError errs)
     | Inr node \<Rightarrow> Inr node)"

definition str_exc :: "exception \<Rightarrow> message" where
  "str_exc exc = (case exc of
       ValidationError errs \<Rightarrow> [Str_of_ValidationError errs]
     | ValueError m _ \<Rightarrow> m
     | RuntimeError m \<Rightarrow> m)"

text \<open>
  \<^verbatim>\<open>generate_card\<close>. The call of the language model is outside the program: its outcome
  (the parsed JSON, or the exception it raised) is the argument.
\<close>

definition generate_card :: "exception + json \<Rightarrow> exception + Node" where
  "generate_card called = (case called of
       Inl exc \<Rightarrow> Inl exc
     | Inr raw \<Rightarrow>
         (case CardNode_model_validate raw of
            Inl exc \<Rightarrow>
              Inl (ValueError (Text ''Model returned invalid card JSON: '' # str_exc exc) (Some exc))
          | Inr node \<Rightarrow> Inr node))"

text \<open>
  The serialisation of a validated document, as the endpoint's \<^verbatim>\<open>response_model\<close>
  produces it: every model is the object of its declared fields, in declaration order,
  an unset optional field is \<^verbatim>\<open>null\<close>.
\<close>

definition ChartSeries_dump :: "ChartSeries \<Rightarrow> json" where
  "ChartSeries_dump s =
     JObj [(''name'', JStr (series_name s)), (''values'', JArr (map JFloat (series_values s)))]"

definition optional_float_dump :: "real option \<Rightarrow> json" where
  "optional_float_dump x = (case x of None \<Rightarrow> JNull | Some y \<Rightarrow> JFloat y)"

fun Node_dump :: "Node \<Rightarrow> json"
  and Panel_dump :: "Panel \<Rightarrow> json"
where
  "Node_dump (CardNode cs) = JObj [(''kind'', JStr ''card''), (''children'', JArr (map Node_dump cs))]"
| "Node_dump (TitleNode s) = JObj [(''kind'', JStr ''title''), (''text'', JStr s)]"
| "Node_dump (SubtitleNode s) = JObj [(''kind'', JStr ''subtitle''), (''text'', JStr s)]"
| "Node_dump (TextNode s) = JObj [(''kind'', JStr ''text''), (''text'', JStr s)]"
| "Node_dump (BulletsNode xs) = JObj [(''kind'', JStr ''bullets''), (''items'', JArr (map JStr xs))]"
| "Node_dump (TableNode cols rs) =
     JObj [(''kind'', JStr ''table''), (''columns'', JArr (map JStr cols)),
           (''rows'', JArr (map (\<lambda>r. JArr (map JStr r)) rs))]"
| "Node_dump (ChartNode ct cats ss) =
     JObj [(''kind'', JStr ''chart''), (''chartType'', JStr ct),
           (''categories'', JArr (map JStr cats)), (''series'', JArr (map ChartSeries_dump ss))]"
| "Node_dump (ResizableLayoutNode d ps) =
     JObj [(''kind'', JStr ''resizableLayout''), (''direction'', JStr d),
           (''panels'', JArr (map Panel_dump ps))]"
| "Panel_dump (Panel d m cs) =
     JObj [(''defaultSize'', optional_float_dump d), (''minSize'', optional_float_dump m),
           (''children'', JArr (map Node_dump cs))]"

text \<open>The field \<^verbatim>\<open>kind\<close> of an instance.\<close>

fun kind :: "Node \<Rightarrow> string" where
  "kind (CardNode _) = ''card''"
| "kind (TitleNode _) = ''title''"
| "kind (SubtitleNode _) = ''subtitle''"
| "kind (TextNode _) = ''text''"
| "kind (BulletsNode _) = ''bullets''"
| "kind (TableNode _ _) = ''table''"
| "kind (ChartNode _ _ _) = ''chart''"
| "kind (ResizableLayoutNode _ _) = ''resizableLayout''"

text \<open>
  \<^verbatim>\<open>generate_card_endpoint\<close>: any exception becomes an \<^verbatim>\<open>HTTPException\<close> with status 500
  and \<^verbatim>\<open>str(exc)\<close> as its detail; a card is returned as its serialisation.
\<close>

datatype http_error = HTTPException nat message

definition generate_card_endpoint :: "exception + json \<Rightarrow> http_error + json" where
  "generate_card_endpoint called = (case generate_card called of
       Inl exc \<Rightarrow> Inl (HTTPException 500 (str_exc exc))
     | Inr node \<Rightarrow> Inr (Node_dump node))"

text \<open>
  The error value that the specification describes for a failed validation: a structured
  value that holds at least one line with a location and a reason, as opposed to the text
  of an exception.
\<close>

definition spec_structured_error :: "exception \<Rightarrow> bool" where
  "spec_structured_error exc = (case exc of ValidationError errs \<Rightarrow> errs \<noteq> [] | _ \<Rightarrow> False)"

section \<open>Positions in the input\<close>

text \<open>
  The types against which a value of the input is validated: the two unions and the ten
  models. \<open>validation_errors\<close> gives the errors of the validator of a type.
\<close>

datatype schema =
    Node_t | NonLayoutNode_t | CardNode_t | TitleNode_t | SubtitleNode_t | TextNode_t
  | BulletsNode_t | TableNode_t | ChartNode_t | ChartSeries_t | ResizableLayoutNode_t | Panel_t

fun validation_errors :: "schema \<Rightarrow> json \<Rightarrow> line_error list" where
  "validation_errors Node_t v = errors_of (Node_validate v)"
| "validation_errors NonLayoutNode_t v = errors_of (NonLayoutNode_validate v)"
| "validation_errors CardNode_t v = errors_of (CardNode_validate v)"
| "validation_errors TitleNode_t v = errors_of (TitleNode_validate v)"
| "validation_errors SubtitleNode_t v = errors_of (SubtitleNode_validate v)"
| "validation_errors TextNode_t v = errors_of (TextNode_validate v)"
| "validation_errors BulletsNode_t v = errors_of (BulletsNode_validate v)"
| "validation_errors TableNode_t v = errors_of (TableNode_validate v)"
| "validation_errors ChartNode_t v = errors_of (ChartNode_validate v)"
| "validation_errors ChartSeries_t v = errors_of (ChartSeries_validate v)"
| "validation_errors ResizableLayoutNode_t v = errors_of (ResizableLayoutNode_validate v)"
| "validation_errors Panel_t v = errors_of (Panel_validate v)"

text \<open>
  The members of the unions by tag, the list field of a model whose items are models
  again, and the declared fields of the models.
\<close>

fun union_members :: "schema \<Rightarrow> (string \<times> schema) list option" where
  "union_members Node_t =
     Some [(''card'', CardNode_t), (''title'', TitleNode_t), (''subtitle'', SubtitleNode_t),
           (''text'', TextNode_t), (''bullets'', BulletsNode_t), (''table'', TableNode_t),
           (''chart'', ChartNode_t), (''resizableLayout'', ResizableLayoutNode_t)]"
| "union_members NonLayoutNode_t =
     Some [(''title'', TitleNode_t), (''subtitle'', SubtitleNode_t), (''text'', TextNode_t),
           (''bullets'', BulletsNode_t), (''table'', TableNode_t), (''chart'', ChartNode_t),
           (''card'', CardNode_t)]"
| "union_members _ = None"

fun list_field :: "schema \<Rightarrow> (string \<times> schema) option" where
  "list_field CardNode_t = Some (''children'', Node_t)"
| "list_field ResizableLayoutNode_t = Some (''panels'', Panel_t)"
| "list_field Panel_t = Some (''children'', NonLayoutNode_t)"
| "list_field ChartNode_t = Some (''series'', ChartSeries_t)"
| "list_field _ = None"

fun declared_fields :: "schema \<Rightarrow> string list option" where
  "declared_fields CardNode_t = Some CardNode_fields"
| "declared_fields TitleNode_t = Some TitleNode_fields"
| "declared_fields SubtitleNode_t = Some SubtitleNode_fields"
| "declared_fields TextNode_t = Some TextNode_fields"
| "declared_fields BulletsNode_t = Some BulletsNode_fields"
| "declared_fields TableNode_t = Some TableNode_fields"
| "declared_fields ChartNode_t = Some ChartNode_fields"
| "declared_fields ChartSeries_t = Some ChartSeries_fields"
| "declared_fields ResizableLayoutNode_t = Some ResizableLayoutNode_fields"
| "declared_fields Panel_t = Some Panel_fields"
| "declared_fields _ = None"

text \<open>
  \<open>locate s v p\<close> follows the location \<open>p\<close>, written as the library writes the location
  of an error, from a value \<open>v\<close> validated as \<open>s\<close>: the tag of a union member leads to the
  same dict validated as that member, a list field and an index lead to the item. The
  result is the value at \<open>p\<close> and the type it is validated as.
\<close>

fun locate :: "schema \<Rightarrow> json \<Rightarrow> loc_item list \<Rightarrow> (schema \<times> json) option" where
  "locate s v [] = Some (s, v)"
| "locate s v (Idx i # p) = None"
| "locate s v (Key k # p) = (case v of
       JObj kvs \<Rightarrow>
         (case union_members s of
            Some members \<Rightarrow>
              if map_of kvs ''kind'' = Some (JStr k) then
                (case map_of members k of Some m \<Rightarrow> locate m v p | None \<Rightarrow> None)
              else None
          | None \<Rightarrow>
              (case (list_field s, map_of kvs k, p) of
                 (Some (f, t), Some (JArr xs), Idx i # p') \<Rightarrow>
                   if f = k \<and> i < length xs then locate t (xs ! i) p' else None
               | _ \<Rightarrow> None))
     | _ \<Rightarrow> None)"

text \<open>Whether a validator succeeds, and whether a value validates as a type.\<close>

definition succeeds :: "'a result \<Rightarrow> bool" where
  "succeeds r = (case r of Inl _ \<Rightarrow> False | Inr _ \<Rightarrow> True)"

fun validates :: "schema \<Rightarrow> json \<Rightarrow> bool" where
  "validates Node_t v = succeeds (Node_validate v)"
| "validates NonLayoutNode_t v = succeeds (NonLayoutNode_validate v)"
| "validates CardNode_t v = succeeds (CardNode_validate v)"
| "validates TitleNode_t v = succeeds (TitleNode_validate v)"
| "validates SubtitleNode_t v = succeeds (SubtitleNode_validate v)"
| "validates TextNode_t v = succeeds (TextNode_validate v)"
| "validates BulletsNode_t v = succeeds (BulletsNode_validate v)"
| "validates TableNode_t v = succeeds (TableNode_validate v)"
| "validates ChartNode_t v = succeeds (ChartNode_validate v)"
| "validates ChartSeries_t v = succeeds (ChartSeries_validate v)"
| "validates ResizableLayoutNode_t v = succeeds (ResizableLayoutNode_validate v)"
| "validates Panel_t v = succeeds (Panel_validate v)"

section \<open>Examples\<close>

text \<open>\<^verbatim>\<open>EXAMPLE_CARD\<close> of \<^verbatim>\<open>llm_client.py\<close>, and the document it validates to.\<close>

definition EXAMPLE_CARD :: json where
  "EXAMPLE_CARD =
     JObj [(''kind'', JStr ''card''),
           (''children'', JArr [
              JObj [(''kind'', JStr ''title''), (''text'', JStr ''Website traffic overview'')],
              JObj [(''kind'', JStr ''card''),
                    (''children'', JArr [
                       JObj [(''kind'', JStr ''subtitle''), (''text'', JStr ''High-level summary'')],
                       JObj [(''kind'', JStr ''text''),
                             (''text'', JStr ''Traffic is growing steadily week over week with healthier conversion rates.'')]])],
              JObj [(''kind'', JStr ''resizableLayout''),
                    (''direction'', JStr ''horizontal''),
                    (''panels'', JArr [
                       JObj [(''defaultSize'', JInt 40),
                             (''children'', JArr [
                                JObj [(''kind'', JStr ''text''),
                                      (''text'', JStr ''This week vs last week traffic comparison.'')],
                                JObj [(''kind'', JStr ''table''),
                                      (''columns'', JArr [JStr ''Day'', JStr ''This week'', JStr ''Last week'']),
                                      (''rows'', JArr [
                                         JArr [JStr ''Mon'', JStr ''1,200'', JStr ''1,050''],
                                         JArr [JStr ''Tue'', JStr ''1,350'', JStr ''1,100'']])]])],
                       JObj [(''defaultSize'', JInt 60),
                             (''children'', JArr [
                                JObj [(''kind'', JStr ''chart''),
                                      (''chartType'', JStr ''line''),
                                      (''categories'', JArr [JStr ''Mon'', JStr ''Tue'']),
                                      (''series'', JArr [
                                         JObj [(''name'', JStr ''This week''),
                                               (''values'', JArr [JInt 1200, JInt 1350])],
                                         JObj [(''name'', JStr ''Last week''),
                                               (''values'', JArr [JInt 1050, JInt 1100])]])]])]])]])]"

definition EXAMPLE_CARD_validated :: Node where
  "EXAMPLE_CARD_validated =
     CardNode [
       TitleNode ''Website traffic overview'',
       CardNode [
         SubtitleNode ''High-level summary'',
         TextNode ''Traffic is growing steadily week over week with healthier conversion rates.''],
       ResizableLayoutNode ''horizontal'' [
         Panel (Some 40) None [
           TextNode ''This week vs last week traffic comparison.'',
           TableNode [''Day'', ''This week'', ''Last week'']
             [[''Mon'', ''1,200'', ''1,050''], [''Tue'', ''1,350'', ''1,100'']]],
         Panel (Some 60) None [
           ChartNode ''line'' [''Mon'', ''Tue'']
             [ChartSeries ''This week'' [1200, 1350], ChartSeries ''Last week'' [1050, 1100]]]]]"

text \<open>
  A card whose layout has one panel; the panel holds a card, and that card holds a
  layout again.
\<close>

definition nested_layout_example :: json where
  "nested_layout_example =
     JObj [(''kind'', JStr ''card''),
           (''children'', JArr [
              JObj [(''kind'', JStr ''resizableLayout''),
                    (''direction'', JStr ''horizontal''),
                    (''panels'', JArr [
                       JObj [(''children'', JArr [
                          JObj [(''kind'', JStr ''card''),
                                (''children'', JArr [
                                   JObj [(''kind'', JStr ''resizableLayout''),
                                         (''direction'', JStr ''vertical''),
                                         (''panels'', JArr [])]])]])]])]])]"

text \<open>The kinds of version 1 of the schema: the tags of the members of \<^verbatim>\<open>Node\<close>.\<close>

definition recognized_kinds :: "string list" where
  "recognized_kinds = [''card'', ''title'', ''subtitle'', ''text'', ''bullets'', ''table'',
     ''chart'', ''resizableLayout'']"

text \<open>A card with a child of an unknown kind.\<close>

definition paragraph_example :: json where
  "paragraph_example =
     JObj [(''kind'', JStr ''card''), (''children'', JArr [JObj [(''kind'', JStr ''paragraph'')]])]"

text \<open>A card with a title that carries the undeclared field \<^verbatim>\<open>style\<close>.\<close>

definition extra_field_example :: json where
  "extra_field_example =
     JObj [(''kind'', JStr ''card''),
           (''children'', JArr [
              JObj [(''kind'', JStr ''title''), (''text'', JStr ''x''), (''style'', JStr ''bold'')]])]"

text \<open>A card with a layout whose only panel holds a layout directly.\<close>

definition layout_in_panel_example :: json where
  "layout_in_panel_example =
     JObj [(''kind'', JStr ''card''),
           (''children'', JArr [
              JObj [(''kind'', JStr ''resizableLayout''),
                    (''direction'', JStr ''horizontal''),
                    (''panels'', JArr [
                       JObj [(''children'', JArr [
                          JObj [(''kind'', JStr ''resizableLayout''),
                                (''direction'', JStr ''vertical''),
                                (''panels'', JArr [])]])]])]])]"

text \<open>A text node at the root.\<close>

definition text_root_example :: json where
  "text_root_example = JObj [(''kind'', JStr ''text''), (''text'', JStr ''hello'')]"

text \<open>Cards with a table of two columns: one with a row of one cell, one with a row of two.\<close>

definition table_short_row_example :: json where
  "table_short_row_example =
     JObj [(''kind'', JStr ''card''),
           (''children'', JArr [
              JObj [(''kind'', JStr ''table''),
                    (''columns'', JArr [JStr ''A'', JStr ''B'']),
                    (''rows'', JArr [JArr [JStr ''x'']])]])]"

definition table_full_row_example :: json where
  "table_full_row_example =
     JObj [(''kind'', JStr ''card''),
           (''children'', JArr [
              JObj [(''kind'', JStr ''table''),
                    (''columns'', JArr [JStr ''A'', JStr ''B'']),
                    (''rows'', JArr [JArr [JStr ''x'', JStr ''y'']])]])]"

text \<open>
  Cards with a chart: without categories and series, with a series but no categories, and
  with a series shorter than the categories.
\<close>

definition empty_chart_example :: json where
  "empty_chart_example =
     JObj [(''kind'', JStr ''card''),
           (''children'', JArr [
              JObj [(''kind'', JStr ''chart''), (''chartType'', JStr ''line''),
                    (''categories'', JArr []), (''series'', JArr [])]])]"

definition series_without_categories_example :: json where
  "series_without_categories_example =
     JObj [(''kind'', JStr ''card''),
           (''children'', JArr [
              JObj [(''kind'', JStr ''chart''), (''chartType'', JStr ''line''),
                    (''categories'', JArr []),
                    (''series'', JArr [JObj [(''name'', JStr ''Rev''), (''values'', JArr [])]])]])]"

definition short_series_example :: json where
  "short_series_example =
     JObj [(''kind'', JStr ''card''),
           (''children'', JArr [
              JObj [(''kind'', JStr ''chart''), (''chartType'', JStr ''bar''),
                    (''categories'', JArr [JStr ''Q1'', JStr ''Q2'']),
                    (''series'', JArr [JObj [(''name'', JStr ''Rev''), (''values'', JArr [JInt 10])]])]])]"



section \<open>Evaluation\<close>

lemmas validate_simps =
  errors_of_def at_loc_def inside_def validate_str_def validate_float_def
  validate_optional_float_def validate_literal_def validate_list_def required_def
  with_default_def extra_forbid_def TitleNode_validate_def SubtitleNode_validate_def
  TextNode_validate_def BulletsNode_validate_def TableNode_validate_def
  ChartSeries_validate_def ChartNode_validate_def validate_series_lengths_def
  Node_validate.simps NonLayoutNode_validate.simps CardNode_validate.simps
  ResizableLayoutNode_validate.simps Panel_validate.simps CardNode_model_validate_def
  TitleNode_fields_def SubtitleNode_fields_def TextNode_fields_def BulletsNode_fields_def
  TableNode_fields_def ChartSeries_fields_def ChartNode_fields_def Panel_fields_def
  ResizableLayoutNode_fields_def CardNode_fields_def

lemmas generate_simps = generate_card_def generate_card_endpoint_def str_exc_def


section \<open>Results and errors of the validators\<close>

lemma errors_of_simps [simp]: "errors_of (Inr x) = []" "errors_of (Inl es) = es"
  by (simp_all add: errors_of_def)

lemma at_loc_simps [simp]:
  "at_loc i [] = []" "at_loc i (e # es) = (i # fst e, snd e) # at_loc i es"
  "at_loc i (es @ es') = at_loc i es @ at_loc i es'"
  by (simp_all add: at_loc_def split: prod.split)

lemma at_loc_eq_Nil [simp]: "at_loc i es = [] \<longleftrightarrow> es = []"
  by (simp add: at_loc_def)

lemma set_at_loc: "set (at_loc i es) = (\<lambda>e. (i # fst e, snd e)) ` set es"
  by (simp add: at_loc_def case_prod_beta)

lemma errors_of_inside [simp]: "errors_of (inside i r) = at_loc i (errors_of r)"
  by (cases r) (simp_all add: inside_def)

lemma inside_eq_Inr [simp]: "inside i r = Inr x \<longleftrightarrow> r = Inr x"
  by (cases r) (simp_all add: inside_def)

lemma errors_of_required:
  "errors_of (required kvs k f) =
     (case map_of kvs k of None \<Rightarrow> [([Key k], Missing)] | Some v \<Rightarrow> at_loc (Key k) (errors_of (f v)))"
  by (simp add: required_def split: option.split)

lemma required_eq_Inr: "required kvs k f = Inr x \<longleftrightarrow> (\<exists>v. map_of kvs k = Some v \<and> f v = Inr x)"
  by (simp add: required_def split: option.split)


lemma with_default_eq_Inr:
  "with_default kvs k d f = Inr x \<longleftrightarrow>
     (case map_of kvs k of None \<Rightarrow> x = d | Some v \<Rightarrow> f v = Inr x)"
  by (auto simp add: with_default_def split: option.split)

lemma collect_from_Cons_eq_Inr:
  "collect_from i (r # rs) = Inr ys \<longleftrightarrow>
     (\<exists>x xs. r = Inr x \<and> collect_from (Suc i) rs = Inr xs \<and> ys = x # xs)"
  by (auto split: sum.splits)

lemma collect_from_eq_Inr: "collect_from i rs = Inr xs \<longleftrightarrow> rs = map Inr xs"
proof (induction rs arbitrary: i xs)
  case Nil
  then show ?case by auto
next
  case (Cons r rs)
  have "collect_from i (r # rs) = Inr xs \<longleftrightarrow>
          (\<exists>y ys. r = Inr y \<and> rs = map Inr ys \<and> xs = y # ys)"
    unfolding collect_from_Cons_eq_Inr Cons.IH ..
  also have "\<dots> \<longleftrightarrow> r # rs = map Inr xs"
    by (cases xs) auto
  finally show ?case .
qed

lemma errors_of_collect_from:
  "errors_of (collect_from i (r # rs)) = at_loc (Idx i) (errors_of r) @ errors_of (collect_from (Suc i) rs)"
  by (simp split: sum.splits)

lemma collect_from_error:
  "n < length rs \<Longrightarrow> e \<in> set (errors_of (rs ! n))
   \<Longrightarrow> (Idx (i + n) # fst e, snd e) \<in> set (errors_of (collect_from i rs))"
proof (induction rs arbitrary: i n)
  case Nil
  then show ?case by simp
next
  case (Cons r rs)
  show ?case
  proof (cases n)
    case 0
    with Cons.prems show ?thesis
      by (simp only: errors_of_collect_from) (auto simp: set_at_loc)
  next
    case (Suc m)
    with Cons.prems have "(Idx (Suc i + m) # fst e, snd e) \<in> set (errors_of (collect_from (Suc i) rs))"
      by (intro Cons.IH) simp_all
    with Suc show ?thesis
      by (simp only: errors_of_collect_from) simp
  qed
qed

lemma validate_list_eq_Inr:
  "validate_list f v = Inr xs \<longleftrightarrow> (\<exists>js. v = JArr js \<and> map f js = map Inr xs)"
  by (cases v) (auto simp: validate_list_def collect_from_eq_Inr)

lemma validate_list_error:
  "n < length js \<Longrightarrow> e \<in> set (errors_of (f (js ! n)))
   \<Longrightarrow> (Idx n # fst e, snd e) \<in> set (errors_of (validate_list f (JArr js)))"
  using collect_from_error [of n "map f js" e 0] by (simp add: validate_list_def)

lemma extra_forbid_eq_Nil: "extra_forbid fs kvs = [] \<longleftrightarrow> fst ` set kvs \<subseteq> set fs"
  by (auto simp: extra_forbid_def filter_empty_conv)

lemma extra_forbid_error:
  "k \<in> fst ` set kvs \<Longrightarrow> k \<notin> set fs \<Longrightarrow> ([Key k], Extra_forbidden) \<in> set (extra_forbid fs kvs)"
  by (auto simp: extra_forbid_def)

lemma errors_TitleNode:
  "errors_of (TitleNode_validate (JObj kvs)) =
     errors_of (required kvs ''kind'' (validate_literal [''title'']))
     @ errors_of (required kvs ''text'' validate_str) @ extra_forbid TitleNode_fields kvs"
  by (auto simp add: TitleNode_validate_def Let_def split: sum.split list.split)

lemma errors_SubtitleNode:
  "errors_of (SubtitleNode_validate (JObj kvs)) =
     errors_of (required kvs ''kind'' (validate_literal [''subtitle'']))
     @ errors_of (required kvs ''text'' validate_str) @ extra_forbid SubtitleNode_fields kvs"
  by (auto simp add: SubtitleNode_validate_def Let_def split: sum.split list.split)

lemma errors_TextNode:
  "errors_of (TextNode_validate (JObj kvs)) =
     errors_of (required kvs ''kind'' (validate_literal [''text'']))
     @ errors_of (required kvs ''text'' validate_str) @ extra_forbid TextNode_fields kvs"
  by (auto simp add: TextNode_validate_def Let_def split: sum.split list.split)

lemma errors_BulletsNode:
  "errors_of (BulletsNode_validate (JObj kvs)) =
     errors_of (required kvs ''kind'' (validate_literal [''bullets'']))
     @ errors_of (required kvs ''items'' (validate_list validate_str))
     @ extra_forbid BulletsNode_fields kvs"
  by (auto simp add: BulletsNode_validate_def Let_def split: sum.split list.split)

lemma errors_TableNode:
  "errors_of (TableNode_validate (JObj kvs)) =
     errors_of (required kvs ''kind'' (validate_literal [''table'']))
     @ errors_of (required kvs ''columns'' (validate_list validate_str))
     @ errors_of (required kvs ''rows'' (validate_list (validate_list validate_str)))
     @ extra_forbid TableNode_fields kvs"
  by (auto simp add: TableNode_validate_def Let_def split: sum.split list.split)

lemma errors_ChartSeries:
  "errors_of (ChartSeries_validate (JObj kvs)) =
     errors_of (required kvs ''name'' validate_str)
     @ errors_of (required kvs ''values'' (validate_list validate_float))
     @ extra_forbid ChartSeries_fields kvs"
  by (auto simp add: ChartSeries_validate_def Let_def split: sum.split list.split)

lemma mem_errors_ChartNode:
  "e \<in> set (errors_of (required kvs ''kind'' (validate_literal [''chart'']))
     @ errors_of (required kvs ''chartType'' (validate_literal [''bar'', ''line'']))
     @ errors_of (required kvs ''categories'' (validate_list validate_str))
     @ errors_of (required kvs ''series'' (validate_list ChartSeries_validate))
     @ extra_forbid ChartNode_fields kvs)
   \<Longrightarrow> e \<in> set (errors_of (ChartNode_validate (JObj kvs)))"
  by (auto simp add: ChartNode_validate_def Let_def split: sum.splits list.splits)

lemma errors_CardNode:
  "errors_of (CardNode_validate (JObj kvs)) =
     errors_of (required kvs ''kind'' (validate_literal [''card'']))
     @ errors_of (required kvs ''children'' (validate_list Node_validate))
     @ extra_forbid CardNode_fields kvs"
  by (auto simp add: CardNode_validate.simps Let_def split: sum.split list.split)

lemma errors_ResizableLayoutNode:
  "errors_of (ResizableLayoutNode_validate (JObj kvs)) =
     errors_of (required kvs ''kind'' (validate_literal [''resizableLayout'']))
     @ errors_of (required kvs ''direction'' (validate_literal [''horizontal'', ''vertical'']))
     @ errors_of (required kvs ''panels'' (validate_list Panel_validate))
     @ extra_forbid ResizableLayoutNode_fields kvs"
  by (auto simp add: ResizableLayoutNode_validate.simps Let_def split: sum.split list.split)

lemma errors_Panel:
  "errors_of (Panel_validate (JObj kvs)) =
     errors_of (with_default kvs ''defaultSize'' None validate_optional_float)
     @ errors_of (with_default kvs ''minSize'' None validate_optional_float)
     @ errors_of (required kvs ''children'' (validate_list NonLayoutNode_validate))
     @ extra_forbid Panel_fields kvs"
  by (auto simp add: Panel_validate.simps Let_def split: sum.split list.split)

lemma errors_Node_member:
  assumes "(k, m) \<in> {(''card'', CardNode_t), (''title'', TitleNode_t), (''subtitle'', SubtitleNode_t),
           (''text'', TextNode_t), (''bullets'', BulletsNode_t), (''table'', TableNode_t),
           (''chart'', ChartNode_t), (''resizableLayout'', ResizableLayoutNode_t)}"
    and "map_of kvs ''kind'' = Some (JStr k)"
  shows "errors_of (Node_validate (JObj kvs)) = at_loc (Key k) (validation_errors m (JObj kvs))"
  using assms(1) unfolding insert_iff empty_iff prod.inject
  by (elim disjE conjE FalseE) (simp_all add: assms(2) Node_validate.simps)

lemma errors_NonLayoutNode_member:
  assumes "(k, m) \<in> {(''title'', TitleNode_t), (''subtitle'', SubtitleNode_t),
           (''text'', TextNode_t), (''bullets'', BulletsNode_t), (''table'', TableNode_t),
           (''chart'', ChartNode_t), (''card'', CardNode_t)}"
    and "map_of kvs ''kind'' = Some (JStr k)"
  shows "errors_of (NonLayoutNode_validate (JObj kvs)) = at_loc (Key k) (validation_errors m (JObj kvs))"
  using assms(1) unfolding insert_iff empty_iff prod.inject
  by (elim disjE conjE FalseE) (simp_all add: assms(2) NonLayoutNode_validate.simps)

lemma errors_union_member:
  assumes "union_members s = Some members" and "map_of kvs ''kind'' = Some (JStr k)"
    and "map_of members k = Some m"
  shows "validation_errors s (JObj kvs) = at_loc (Key k) (validation_errors m (JObj kvs))"
proof -
  have km: "(k, m) \<in> set members"
    using assms(3) by (rule map_of_SomeD)
  show ?thesis
  proof (cases s)
    case Node_t
    with assms(1) have "set members = {(''card'', CardNode_t), (''title'', TitleNode_t),
        (''subtitle'', SubtitleNode_t), (''text'', TextNode_t), (''bullets'', BulletsNode_t),
        (''table'', TableNode_t), (''chart'', ChartNode_t),
        (''resizableLayout'', ResizableLayoutNode_t)}"
      by (simp add: eq_commute [of _ members])
    with km have "(k, m) \<in> {(''card'', CardNode_t), (''title'', TitleNode_t),
        (''subtitle'', SubtitleNode_t), (''text'', TextNode_t), (''bullets'', BulletsNode_t),
        (''table'', TableNode_t), (''chart'', ChartNode_t),
        (''resizableLayout'', ResizableLayoutNode_t)}"
      by (simp only:)
    from errors_Node_member [OF this assms(2)] Node_t show ?thesis
      by (simp only: validation_errors.simps)
  next
    case NonLayoutNode_t
    with assms(1) have "set members = {(''title'', TitleNode_t),
        (''subtitle'', SubtitleNode_t), (''text'', TextNode_t), (''bullets'', BulletsNode_t),
        (''table'', TableNode_t), (''chart'', ChartNode_t), (''card'', CardNode_t)}"
      by (simp add: eq_commute [of _ members])
    with km have "(k, m) \<in> {(''title'', TitleNode_t),
        (''subtitle'', SubtitleNode_t), (''text'', TextNode_t), (''bullets'', BulletsNode_t),
        (''table'', TableNode_t), (''chart'', ChartNode_t), (''card'', CardNode_t)}"
      by (simp only:)
    from errors_NonLayoutNode_member [OF this assms(2)] NonLayoutNode_t show ?thesis
      by (simp only: validation_errors.simps)
  qed (use assms(1) in simp_all)
qed

lemma at_loc_mem: "e \<in> set es \<Longrightarrow> (i # fst e, snd e) \<in> set (at_loc i es)"
  by (simp add: set_at_loc)

lemma errors_list_field:
  assumes "list_field s = Some (f, t)" and "map_of kvs f = Some (JArr xs)" and "i < length xs"
    and "e \<in> set (validation_errors t (xs ! i))"
  shows "(Key f # Idx i # fst e, snd e) \<in> set (validation_errors s (JObj kvs))"
proof -
  have field: "(Key f # Idx i # fst e, snd e) \<in> set (errors_of (required kvs f (validate_list g)))"
    if "e \<in> set (errors_of (g (xs ! i)))" for g :: "json \<Rightarrow> 'a result"
    using at_loc_mem [OF validate_list_error [of i xs e g, OF assms(3) that], of "Key f"] assms(2)
    by (simp add: errors_of_required)
  show ?thesis
  proof (cases s)
    case CardNode_t
    with assms(1,4) field [of Node_validate] show ?thesis
      by (simp add: errors_CardNode)
  next
    case ResizableLayoutNode_t
    with assms(1,4) field [of Panel_validate] show ?thesis
      by (simp add: errors_ResizableLayoutNode)
  next
    case Panel_t
    with assms(1,4) field [of NonLayoutNode_validate] show ?thesis
      by (simp add: errors_Panel)
  next
    case ChartNode_t
    with assms(1,4) field [of ChartSeries_validate] show ?thesis
      by (simp add: mem_errors_ChartNode)
  qed (use assms(1) in simp_all)
qed

lemma errors_extra_field:
  assumes "declared_fields m = Some fs" and "k \<in> fst ` set kvs" and "k \<notin> set fs"
  shows "([Key k], Extra_forbidden) \<in> set (validation_errors m (JObj kvs))"
proof -
  note x = extra_forbid_error [OF assms(2)]
  show ?thesis
  proof (cases m)
    case ChartNode_t
    with assms x [of ChartNode_fields] show ?thesis
      by (simp add: mem_errors_ChartNode)
  qed (use assms x in \<open>simp_all add: errors_CardNode errors_TitleNode errors_SubtitleNode
        errors_TextNode errors_BulletsNode errors_TableNode errors_ChartSeries
        errors_ResizableLayoutNode errors_Panel\<close>)
qed

lemma locate_errors:
  "locate s v p = Some (s', v') \<Longrightarrow> e \<in> set (validation_errors s' v')
   \<Longrightarrow> (p @ fst e, snd e) \<in> set (validation_errors s v)"
proof (induction s v p rule: locate.induct)
  case (1 s v)
  then show ?case by simp
next
  case (2 s v i p)
  then show ?case by simp
next
  case (3 s v k p)
  from "3.prems"(1) obtain kvs where v: "v = JObj kvs"
    by (cases v) simp_all
  show ?case
  proof (cases "union_members s")
    case (Some members)
    with "3.prems"(1) v obtain m where kind: "map_of kvs ''kind'' = Some (JStr k)"
      and m: "map_of members k = Some m" and loc: "locate m v p = Some (s', v')"
      by (auto split: if_splits option.splits)
    have "(p @ fst e, snd e) \<in> set (validation_errors m v)"
      using "3.IH"(2) v Some kind m loc "3.prems"(2) by blast
    from at_loc_mem [OF this, of "Key k"] show ?thesis
      using errors_union_member [OF Some kind m] v by simp
  next
    case None
    with "3.prems"(1) v obtain t xs i p' where f: "list_field s = Some (k, t)"
      and xs: "map_of kvs k = Some (JArr xs)" and p: "p = Idx i # p'" and i: "i < length xs"
      and loc: "locate t (xs ! i) p' = Some (s', v')"
      by (auto split: if_splits option.splits json.splits list.splits loc_item.splits)
    have "(p' @ fst e, snd e) \<in> set (validation_errors t (xs ! i))"
      using i by (intro "3.IH"(1) [OF v None refl f refl refl xs refl p refl _ loc "3.prems"(2)]) simp
    from errors_list_field [OF f xs i this] show ?thesis
      using v p by simp
  qed
qed

section \<open>When a validator succeeds\<close>

lemma inside_simps [simp]: "inside i (Inl es) = Inl (at_loc i es)" "inside i (Inr x) = Inr x"
  by (simp_all add: inside_def)

lemma validate_literal_eq_Inr:
  "validate_literal allowed v = Inr s \<longleftrightarrow> v = JStr s \<and> s \<in> set allowed"
  by (cases v) (auto simp: validate_literal_def)

lemma validate_str_eq_Inr: "validate_str v = Inr s \<longleftrightarrow> v = JStr s"
  by (cases v) (auto simp: validate_str_def)

lemma validate_str_JStr [simp]: "validate_str (JStr s) = Inr s"
  by (simp add: validate_str_def)

lemma validate_literal_JStr [simp]:
  "s \<in> set allowed \<Longrightarrow> validate_literal allowed (JStr s) = Inr s"
  by (simp add: validate_literal_def)

lemma extra_forbid_Nil: "fst ` set kvs \<subseteq> set fs \<Longrightarrow> extra_forbid fs kvs = []"
  by (simp add: extra_forbid_eq_Nil)

lemmas model_eq_Inr_simps =
  Let_def required_def with_default_def validate_literal_eq_Inr validate_str_eq_Inr
  extra_forbid_eq_Nil extra_forbid_Nil






lemma ChartSeries_eq_Inr:
  "ChartSeries_validate v = Inr n \<longleftrightarrow>
     (\<exists>kvs nm jv xs. v = JObj kvs \<and> map_of kvs ''name'' = Some (JStr nm)
        \<and> map_of kvs ''values'' = Some jv \<and> validate_list validate_float jv = Inr xs
        \<and> fst ` set kvs \<subseteq> set ChartSeries_fields \<and> n = ChartSeries nm xs)"
  by (cases v)
    (auto simp add: ChartSeries_validate_def model_eq_Inr_simps
       split: sum.splits list.splits option.splits)

lemma CardNode_eq_Inr:
  "CardNode_validate v = Inr n \<longleftrightarrow>
     (\<exists>kvs j cs. v = JObj kvs \<and> map_of kvs ''kind'' = Some (JStr ''card'')
        \<and> map_of kvs ''children'' = Some j \<and> validate_list Node_validate j = Inr cs
        \<and> fst ` set kvs \<subseteq> set CardNode_fields \<and> n = CardNode cs)"
  by (cases v)
    (auto simp add: CardNode_validate.simps model_eq_Inr_simps
       split: sum.splits list.splits option.splits)

lemma ResizableLayoutNode_eq_Inr:
  "ResizableLayoutNode_validate v = Inr n \<longleftrightarrow>
     (\<exists>kvs d j ps. v = JObj kvs \<and> map_of kvs ''kind'' = Some (JStr ''resizableLayout'')
        \<and> map_of kvs ''direction'' = Some (JStr d) \<and> d \<in> {''horizontal'', ''vertical''}
        \<and> map_of kvs ''panels'' = Some j \<and> validate_list Panel_validate j = Inr ps
        \<and> fst ` set kvs \<subseteq> set ResizableLayoutNode_fields \<and> n = ResizableLayoutNode d ps)"
  by (cases v)
    (auto simp add: ResizableLayoutNode_validate.simps model_eq_Inr_simps
       split: sum.splits list.splits option.splits)

lemma Panel_eq_Inr:
  "Panel_validate v = Inr n \<longleftrightarrow>
     (\<exists>kvs d m j cs. v = JObj kvs
        \<and> with_default kvs ''defaultSize'' None validate_optional_float = Inr d
        \<and> with_default kvs ''minSize'' None validate_optional_float = Inr m
        \<and> map_of kvs ''children'' = Some j \<and> validate_list NonLayoutNode_validate j = Inr cs
        \<and> fst ` set kvs \<subseteq> set Panel_fields \<and> n = Panel d m cs)"
  by (cases v)
    (auto simp add: Panel_validate.simps Let_def required_def extra_forbid_eq_Nil extra_forbid_Nil
       split: sum.splits list.splits option.splits)

lemma ChartNode_eq_Inr:
  "ChartNode_validate v = Inr n \<longleftrightarrow>
     (\<exists>kvs ct jc js cats ss. v = JObj kvs \<and> map_of kvs ''kind'' = Some (JStr ''chart'')
        \<and> map_of kvs ''chartType'' = Some (JStr ct) \<and> ct \<in> {''bar'', ''line''}
        \<and> map_of kvs ''categories'' = Some jc \<and> validate_list validate_str jc = Inr cats
        \<and> map_of kvs ''series'' = Some js \<and> validate_list ChartSeries_validate js = Inr ss
        \<and> fst ` set kvs \<subseteq> set ChartNode_fields
        \<and> validate_series_lengths cats ss = None \<and> n = ChartNode ct cats ss)"
  by (cases v)
    (auto simp add: ChartNode_validate_def model_eq_Inr_simps
       split: sum.splits list.splits option.splits)









section \<open>Rejection of unknown kinds, undeclared fields and layouts in panels\<close>

lemma root_error:
  "e \<in> set (validation_errors CardNode_t raw)
   \<Longrightarrow> \<exists>errs. CardNode_model_validate raw = Inl (ValidationError errs) \<and> e \<in> set errs"
  by (cases "CardNode_validate raw") (simp_all add: CardNode_model_validate_def)

lemma Node_unknown_kind:
  assumes "\<forall>t \<in> set recognized_kinds. map_of kvs ''kind'' \<noteq> Some (JStr t)"
  shows "Node_validate (JObj kvs) =
    Inl [([], if map_of kvs ''kind'' = None then Union_tag_not_found else Union_tag_invalid)]"
  using assms by (cases "map_of kvs ''kind''") (simp_all add: recognized_kinds_def Node_validate.simps)

lemma NonLayoutNode_unknown_kind:
  assumes "\<forall>t \<in> set recognized_kinds. map_of kvs ''kind'' \<noteq> Some (JStr t)"
  shows "NonLayoutNode_validate (JObj kvs) =
    Inl [([], if map_of kvs ''kind'' = None then Union_tag_not_found else Union_tag_invalid)]"
  using assms
  by (cases "map_of kvs ''kind''") (simp_all add: recognized_kinds_def NonLayoutNode_validate.simps)

lemma CardNode_unknown_kind:
  assumes "map_of kvs ''kind'' \<noteq> Some (JStr ''card'')"
  shows "([Key ''kind''], if map_of kvs ''kind'' = None then Missing else Literal_error)
           \<in> set (errors_of (CardNode_validate (JObj kvs)))"
proof (cases "map_of kvs ''kind''")
  case None
  then show ?thesis by (simp add: errors_CardNode errors_of_required)
next
  case (Some t)
  with assms have "validate_literal [''card''] t = Inl [([], Literal_error)]"
    by (cases t) (simp_all add: validate_literal_def)
  with Some show ?thesis by (simp add: errors_CardNode errors_of_required)
qed

text \<open>
  C7. An object at a node position (the root, a child of a card, a child of a panel)
  whose \<^verbatim>\<open>kind\<close> is missing or is not one of the recognized strings makes validation
  fail at that position: the validation error of the whole input has a line error
  located there. Below a union it is the error of the tag (not found, or invalid) at the
  position itself; at the root, which is validated as a \<^verbatim>\<open>CardNode\<close>, it is the error
  of the field \<^verbatim>\<open>kind\<close> (missing, or not the literal) of the object at the position.
\<close>

theorem unknown_kind_rejected:
  assumes "locate CardNode_t raw p = Some (s, JObj kvs)"
    and "s = Node_t \<or> s = NonLayoutNode_t \<or> s = CardNode_t"
    and "\<forall>t \<in> set recognized_kinds. map_of kvs ''kind'' \<noteq> Some (JStr t)"
  shows "\<exists>errs. CardNode_model_validate raw = Inl (ValidationError errs)
           \<and> (if s = CardNode_t
               then (p @ [Key ''kind''], Missing) \<in> set errs
                    \<or> (p @ [Key ''kind''], Literal_error) \<in> set errs
               else (p, Union_tag_not_found) \<in> set errs \<or> (p, Union_tag_invalid) \<in> set errs)"
proof -
  define t where "t = (if map_of kvs ''kind'' = None then Union_tag_not_found else Union_tag_invalid)"
  define t' where "t' = (if map_of kvs ''kind'' = None then Missing else Literal_error)"
  from assms(3) have nc: "map_of kvs ''kind'' \<noteq> Some (JStr ''card'')"
    by (simp add: recognized_kinds_def)
  have "(if s = CardNode_t then ([Key ''kind''], t') else ([], t)) \<in> set (validation_errors s (JObj kvs))"
    using assms(2) Node_unknown_kind [OF assms(3)] NonLayoutNode_unknown_kind [OF assms(3)]
      CardNode_unknown_kind [OF nc]
    by (auto simp add: t_def t'_def)
  from locate_errors [OF assms(1) this] have
    "(if s = CardNode_t then (p @ [Key ''kind''], t') else (p, t)) \<in> set (validation_errors CardNode_t raw)"
    by (simp split: if_splits)
  from root_error [OF this] show ?thesis
    by (auto simp add: t_def t'_def split: if_splits)
qed

theorem unknown_kind_rejected_witness:
  "locate CardNode_t paragraph_example [Key ''children'', Idx 0]
     = Some (Node_t, JObj [(''kind'', JStr ''paragraph'')])
   \<and> map_of [(''kind'', JStr ''paragraph'')] ''kind'' = Some (JStr ''paragraph'')
   \<and> ''paragraph'' \<notin> set recognized_kinds
   \<and> (\<exists>errs. CardNode_model_validate paragraph_example = Inl (ValidationError errs)
        \<and> (([Key ''children'', Idx 0], Union_tag_not_found) \<in> set errs
            \<or> ([Key ''children'', Idx 0], Union_tag_invalid) \<in> set errs))"
proof -
  have l: "locate CardNode_t paragraph_example [Key ''children'', Idx 0]
     = Some (Node_t, JObj [(''kind'', JStr ''paragraph'')])"
    by (simp add: paragraph_example_def)
  have k: "\<forall>t \<in> set recognized_kinds. map_of [(''kind'', JStr ''paragraph'')] ''kind'' \<noteq> Some (JStr t)"
    by (simp add: recognized_kinds_def)
  have n: "''paragraph'' \<notin> set recognized_kinds"
    by (simp add: recognized_kinds_def)
  from unknown_kind_rejected [OF l _ k] l n show ?thesis by simp
qed

text \<open>
  C6. An object validated as one of the ten models (the eight node classes, \<^verbatim>\<open>Panel\<close>
  and \<^verbatim>\<open>ChartSeries\<close>), anywhere in the input, that carries a key which is not a
  declared field of that model makes validation fail, with the error
  \<^verbatim>\<open>extra_forbidden\<close> located at that key.
\<close>

theorem extra_field_rejected:
  assumes "locate CardNode_t raw p = Some (m, JObj kvs)"
    and "declared_fields m = Some fs"
    and "k \<in> fst ` set kvs" and "k \<notin> set fs"
  shows "\<exists>errs. CardNode_model_validate raw = Inl (ValidationError errs)
           \<and> (p @ [Key k], Extra_forbidden) \<in> set errs"
  using root_error [OF locate_errors [OF assms(1) errors_extra_field [OF assms(2,3,4)]]]
  by simp

theorem extra_field_rejected_witness:
  "locate CardNode_t extra_field_example [Key ''children'', Idx 0, Key ''title'']
     = Some (TitleNode_t, JObj [(''kind'', JStr ''title''), (''text'', JStr ''x''), (''style'', JStr ''bold'')])
   \<and> declared_fields TitleNode_t = Some [''kind'', ''text'']
   \<and> (\<exists>errs. CardNode_model_validate extra_field_example = Inl (ValidationError errs)
        \<and> ([Key ''children'', Idx 0, Key ''title'', Key ''style''], Extra_forbidden) \<in> set errs)"
proof -
  have l: "locate CardNode_t extra_field_example [Key ''children'', Idx 0, Key ''title'']
     = Some (TitleNode_t, JObj [(''kind'', JStr ''title''), (''text'', JStr ''x''), (''style'', JStr ''bold'')])"
    by (simp add: extra_field_example_def)
  have d: "declared_fields TitleNode_t = Some [''kind'', ''text'']"
    by (simp add: TitleNode_fields_def)
  from extra_field_rejected [OF l d, of "''style''"] l d show ?thesis by simp
qed

text \<open>
  C4. A panel, anywhere in the input, whose \<^verbatim>\<open>children\<close> array directly contains an
  object of kind \<^verbatim>\<open>resizableLayout\<close> makes validation fail, whatever the rest of the
  input is: \<^verbatim>\<open>resizableLayout\<close> is not a tag of \<^verbatim>\<open>NonLayoutNode\<close>, and the error is
  located at that child.
\<close>

theorem layout_in_panel_rejected:
  assumes "locate CardNode_t raw p = Some (Panel_t, JObj kvs)"
    and "map_of kvs ''children'' = Some (JArr cs)"
    and "i < length cs" and "cs ! i = JObj ckvs"
    and "map_of ckvs ''kind'' = Some (JStr ''resizableLayout'')"
  shows "\<exists>errs. CardNode_model_validate raw = Inl (ValidationError errs)
           \<and> (p @ [Key ''children'', Idx i], Union_tag_invalid) \<in> set errs"
proof -
  have "NonLayoutNode_validate (cs ! i) = Inl [([], Union_tag_invalid)]"
    using assms(4,5) by (simp add: NonLayoutNode_validate.simps)
  then have "([], Union_tag_invalid) \<in> set (validation_errors NonLayoutNode_t (cs ! i))"
    by simp
  from errors_list_field [OF _ assms(2,3) this, of Panel_t]
  have "([Key ''children'', Idx i], Union_tag_invalid) \<in> set (validation_errors Panel_t (JObj kvs))"
    by simp
  from root_error [OF locate_errors [OF assms(1) this]] show ?thesis
    by simp
qed

theorem layout_in_panel_rejected_witness:
  "locate CardNode_t layout_in_panel_example
      [Key ''children'', Idx 0, Key ''resizableLayout'', Key ''panels'', Idx 0]
     = Some (Panel_t, JObj [(''children'', JArr [
                          JObj [(''kind'', JStr ''resizableLayout''),
                                (''direction'', JStr ''vertical''),
                                (''panels'', JArr [])]])])
   \<and> (\<exists>errs. CardNode_model_validate layout_in_panel_example = Inl (ValidationError errs)
        \<and> ([Key ''children'', Idx 0, Key ''resizableLayout'', Key ''panels'', Idx 0,
              Key ''children'', Idx 0], Union_tag_invalid) \<in> set errs)"
proof -
  have l: "locate CardNode_t layout_in_panel_example
      [Key ''children'', Idx 0, Key ''resizableLayout'', Key ''panels'', Idx 0]
     = Some (Panel_t, JObj [(''children'', JArr [
                          JObj [(''kind'', JStr ''resizableLayout''),
                                (''direction'', JStr ''vertical''),
                                (''panels'', JArr [])]])])"
    by (simp add: layout_in_panel_example_def)
  from layout_in_panel_rejected [OF l, of _ 0] l show ?thesis by simp
qed

section \<open>Serialisation and validation\<close>









lemma dump_kind: "\<exists>kvs. Node_dump n = JObj kvs \<and> map_of kvs ''kind'' = Some (JStr (kind n))"
  by (cases n) simp_all



lemma EXAMPLE_CARD_valid: "CardNode_model_validate EXAMPLE_CARD = Inr EXAMPLE_CARD_validated"
  by (simp add: EXAMPLE_CARD_def EXAMPLE_CARD_validated_def validate_simps)



section \<open>The root, and the error of generate\_card\<close>

text \<open>
  C5. Validation succeeds only for a card at the root: whenever \<^verbatim>\<open>generate_card\<close> returns a
  document, the raw value is an object of kind \<^verbatim>\<open>card\<close> and the document is a
  \<^verbatim>\<open>CardNode\<close>. So a root of any other kind is rejected, also one that validates as a
  node in a child position, as the text node of the example does.
\<close>

theorem root_must_be_card:
  assumes "generate_card (Inr raw) = Inr d"
  shows "\<exists>kvs cs. raw = JObj kvs \<and> map_of kvs ''kind'' = Some (JStr ''card'') \<and> d = CardNode cs"
proof -
  from assms have "CardNode_validate raw = Inr d"
    by (simp add: generate_card_def CardNode_model_validate_def split: sum.splits)
  then show ?thesis
    by (auto simp add: CardNode_eq_Inr)
qed

theorem root_must_be_card_witness:
  "generate_card (Inr EXAMPLE_CARD) = Inr EXAMPLE_CARD_validated
   \<and> (\<exists>kvs cs. EXAMPLE_CARD = JObj kvs \<and> map_of kvs ''kind'' = Some (JStr ''card'')
         \<and> EXAMPLE_CARD_validated = CardNode cs)"
proof -
  have g: "generate_card (Inr EXAMPLE_CARD) = Inr EXAMPLE_CARD_validated"
    by (simp add: generate_card_def EXAMPLE_CARD_valid)
  from root_must_be_card [OF g] g show ?thesis by simp
qed

lemma text_node_not_a_root:
  "Node_validate text_root_example = Inr (TextNode ''hello'')"
  "generate_card (Inr text_root_example) =
     Inl (ValueError
       [Text ''Model returned invalid card JSON: '',
        Str_of_ValidationError
          [([Key ''kind''], Literal_error), ([Key ''children''], Missing),
           ([Key ''text''], Extra_forbidden)]]
       (Some (ValidationError
          [([Key ''kind''], Literal_error), ([Key ''children''], Missing),
           ([Key ''text''], Extra_forbidden)])))"
  by (simp_all add: text_root_example_def validate_simps generate_simps)

text \<open>
  C1. The schema text of \<^verbatim>\<open>SYSTEM_PROMPT\<close> asks for rows of the same length as
  \<^verbatim>\<open>columns\<close>, and \<^verbatim>\<open>ChartNode\<close> checks the corresponding rule for its series, but
  \<^verbatim>\<open>TableNode\<close> has no validator: the table with two columns and a row of one cell
  validates.
\<close>

theorem table_rows_not_checked:
  "CardNode_model_validate table_short_row_example
     = Inr (CardNode [TableNode [''A'', ''B''] [[''x'']]])"
  by (simp add: table_short_row_example_def validate_simps)

lemma table_full_row_accepted:
  "CardNode_model_validate table_full_row_example
     = Inr (CardNode [TableNode [''A'', ''B''] [[''x'', ''y'']]])"
  by (simp add: table_full_row_example_def validate_simps)

text \<open>
  C9, as the specification states it, fails: for the text node at the root,
  \<^verbatim>\<open>generate_card\<close> raises a \<^verbatim>\<open>ValueError\<close> whose content is a message text, not a
  structured error, and the endpoint answers with status 500 and that text.
\<close>

theorem generate_card_error_not_structured:
  "generate_card (Inr text_root_example) =
     Inl (ValueError
       [Text ''Model returned invalid card JSON: '',
        Str_of_ValidationError
          [([Key ''kind''], Literal_error), ([Key ''children''], Missing),
           ([Key ''text''], Extra_forbidden)]]
       (Some (ValidationError
          [([Key ''kind''], Literal_error), ([Key ''children''], Missing),
           ([Key ''text''], Extra_forbidden)])))
   \<and> \<not> spec_structured_error (ValueError
       [Text ''Model returned invalid card JSON: '',
        Str_of_ValidationError
          [([Key ''kind''], Literal_error), ([Key ''children''], Missing),
           ([Key ''text''], Extra_forbidden)]]
       (Some (ValidationError
          [([Key ''kind''], Literal_error), ([Key ''children''], Missing),
           ([Key ''text''], Extra_forbidden)])))
   \<and> generate_card_endpoint (Inr text_root_example) =
     Inl (HTTPException 500
       [Text ''Model returned invalid card JSON: '',
        Str_of_ValidationError
          [([Key ''kind''], Literal_error), ([Key ''children''], Missing),
           ([Key ''text''], Extra_forbidden)]])"
  by (simp add: text_root_example_def validate_simps generate_simps spec_structured_error_def)

text \<open>
  C9, amended. For every input that fails validation, \<^verbatim>\<open>generate_card\<close> raises a
  \<^verbatim>\<open>ValueError\<close> whose message is the text \<^verbatim>\<open>Model returned invalid card JSON: \<close>
  followed by the rendering of the validation error; the validation error itself is
  attached only as the cause. The endpoint turns it into an \<^verbatim>\<open>HTTPException\<close> with
  status 500 and the same text as detail.
\<close>

theorem generate_card_failure_is_text:
  assumes "CardNode_validate raw = Inl errs"
  shows "generate_card (Inr raw) =
           Inl (ValueError
             [Text ''Model returned invalid card JSON: '', Str_of_ValidationError errs]
             (Some (ValidationError errs)))
         \<and> generate_card_endpoint (Inr raw) =
           Inl (HTTPException 500
             [Text ''Model returned invalid card JSON: '', Str_of_ValidationError errs])"
  using assms by (simp add: generate_simps CardNode_model_validate_def)

theorem generate_card_failure_is_text_witness:
  "CardNode_validate text_root_example =
     Inl [([Key ''kind''], Literal_error), ([Key ''children''], Missing),
          ([Key ''text''], Extra_forbidden)]
   \<and> generate_card (Inr text_root_example) =
           Inl (ValueError
             [Text ''Model returned invalid card JSON: '',
              Str_of_ValidationError [([Key ''kind''], Literal_error), ([Key ''children''], Missing),
                ([Key ''text''], Extra_forbidden)]]
             (Some (ValidationError [([Key ''kind''], Literal_error), ([Key ''children''], Missing),
                ([Key ''text''], Extra_forbidden)])))
   \<and> generate_card_endpoint (Inr text_root_example) =
           Inl (HTTPException 500
             [Text ''Model returned invalid card JSON: '',
              Str_of_ValidationError [([Key ''kind''], Literal_error), ([Key ''children''], Missing),
                ([Key ''text''], Extra_forbidden)]])"
proof -
  have v: "CardNode_validate text_root_example =
     Inl [([Key ''kind''], Literal_error), ([Key ''children''], Missing),
          ([Key ''text''], Extra_forbidden)]"
    by (simp add: text_root_example_def validate_simps)
  from generate_card_failure_is_text [OF v] v show ?thesis by simp
qed

section \<open>Validity of the parts of a valid input\<close>

lemma succeeds_iff: "succeeds r \<longleftrightarrow> (\<exists>x. r = Inr x)"
  by (cases r) (simp_all add: succeeds_def)

lemma succeeds_inside [simp]: "succeeds (inside i r) = succeeds r"
  by (cases r) (simp_all add: succeeds_def)

lemma validate_list_item:
  assumes "validate_list f (JArr js) = Inr xs" and "i < length js"
  shows "f (js ! i) = Inr (xs ! i)" and "length xs = length js"
proof -
  from assms(1) have m: "map f js = map Inr xs"
    by (simp add: validate_list_eq_Inr)
  then show l: "length xs = length js"
    by (auto dest: map_eq_imp_length_eq)
  from m have "map f js ! i = map Inr xs ! i" by simp
  with assms(2) l show "f (js ! i) = Inr (xs ! i)" by simp
qed

lemma validates_Node_member:
  assumes "(k, m) \<in> {(''card'', CardNode_t), (''title'', TitleNode_t), (''subtitle'', SubtitleNode_t),
           (''text'', TextNode_t), (''bullets'', BulletsNode_t), (''table'', TableNode_t),
           (''chart'', ChartNode_t), (''resizableLayout'', ResizableLayoutNode_t)}"
    and "map_of kvs ''kind'' = Some (JStr k)"
  shows "succeeds (Node_validate (JObj kvs)) = validates m (JObj kvs)"
  using assms(1) unfolding insert_iff empty_iff prod.inject
  by (elim disjE conjE FalseE) (simp_all add: assms(2) Node_validate.simps)

lemma validates_NonLayoutNode_member:
  assumes "(k, m) \<in> {(''title'', TitleNode_t), (''subtitle'', SubtitleNode_t),
           (''text'', TextNode_t), (''bullets'', BulletsNode_t), (''table'', TableNode_t),
           (''chart'', ChartNode_t), (''card'', CardNode_t)}"
    and "map_of kvs ''kind'' = Some (JStr k)"
  shows "succeeds (NonLayoutNode_validate (JObj kvs)) = validates m (JObj kvs)"
  using assms(1) unfolding insert_iff empty_iff prod.inject
  by (elim disjE conjE FalseE) (simp_all add: assms(2) NonLayoutNode_validate.simps)

lemma validates_union_member:
  assumes "union_members s = Some members" and "map_of kvs ''kind'' = Some (JStr k)"
    and "map_of members k = Some m"
  shows "validates s (JObj kvs) = validates m (JObj kvs)"
proof -
  have km: "(k, m) \<in> set members"
    using assms(3) by (rule map_of_SomeD)
  show ?thesis
  proof (cases s)
    case Node_t
    with assms(1) have "set members = {(''card'', CardNode_t), (''title'', TitleNode_t),
        (''subtitle'', SubtitleNode_t), (''text'', TextNode_t), (''bullets'', BulletsNode_t),
        (''table'', TableNode_t), (''chart'', ChartNode_t),
        (''resizableLayout'', ResizableLayoutNode_t)}"
      by (simp add: eq_commute [of _ members])
    with km have "(k, m) \<in> {(''card'', CardNode_t), (''title'', TitleNode_t),
        (''subtitle'', SubtitleNode_t), (''text'', TextNode_t), (''bullets'', BulletsNode_t),
        (''table'', TableNode_t), (''chart'', ChartNode_t),
        (''resizableLayout'', ResizableLayoutNode_t)}"
      by (simp only:)
    from validates_Node_member [OF this assms(2)] Node_t show ?thesis
      by (simp only: validates.simps)
  next
    case NonLayoutNode_t
    with assms(1) have "set members = {(''title'', TitleNode_t),
        (''subtitle'', SubtitleNode_t), (''text'', TextNode_t), (''bullets'', BulletsNode_t),
        (''table'', TableNode_t), (''chart'', ChartNode_t), (''card'', CardNode_t)}"
      by (simp add: eq_commute [of _ members])
    with km have "(k, m) \<in> {(''title'', TitleNode_t),
        (''subtitle'', SubtitleNode_t), (''text'', TextNode_t), (''bullets'', BulletsNode_t),
        (''table'', TableNode_t), (''chart'', ChartNode_t), (''card'', CardNode_t)}"
      by (simp only:)
    from validates_NonLayoutNode_member [OF this assms(2)] NonLayoutNode_t show ?thesis
      by (simp only: validates.simps)
  qed (use assms(1) in simp_all)
qed

lemma validates_list_field:
  assumes "list_field s = Some (f, t)" and "map_of kvs f = Some (JArr xs)" and "i < length xs"
    and "validates s (JObj kvs)"
  shows "validates t (xs ! i)"
proof (cases s)
  case CardNode_t
  with assms(1,2,4) obtain cs where "validate_list Node_validate (JArr xs) = Inr cs"
    by (auto simp add: succeeds_iff CardNode_eq_Inr)
  from validate_list_item(1) [OF this assms(3)] CardNode_t assms(1) show ?thesis
    by (simp add: succeeds_iff)
next
  case ResizableLayoutNode_t
  with assms(1,2,4) obtain ps where "validate_list Panel_validate (JArr xs) = Inr ps"
    by (auto simp add: succeeds_iff ResizableLayoutNode_eq_Inr)
  from validate_list_item(1) [OF this assms(3)] ResizableLayoutNode_t assms(1) show ?thesis
    by (simp add: succeeds_iff)
next
  case Panel_t
  with assms(1,2,4) obtain cs where "validate_list NonLayoutNode_validate (JArr xs) = Inr cs"
    by (auto simp add: succeeds_iff Panel_eq_Inr)
  from validate_list_item(1) [OF this assms(3)] Panel_t assms(1) show ?thesis
    by (simp add: succeeds_iff)
next
  case ChartNode_t
  with assms(1,2,4) obtain ss where "validate_list ChartSeries_validate (JArr xs) = Inr ss"
    by (auto simp add: succeeds_iff ChartNode_eq_Inr)
  from validate_list_item(1) [OF this assms(3)] ChartNode_t assms(1) show ?thesis
    by (simp add: succeeds_iff)
qed (use assms(1) in simp_all)

lemma locate_validates:
  "locate s v p = Some (s', v') \<Longrightarrow> validates s v \<Longrightarrow> validates s' v'"
proof (induction s v p rule: locate.induct)
  case (1 s v)
  then show ?case by simp
next
  case (2 s v i p)
  then show ?case by simp
next
  case (3 s v k p)
  from "3.prems"(1) obtain kvs where v: "v = JObj kvs"
    by (cases v) simp_all
  show ?case
  proof (cases "union_members s")
    case (Some members)
    with "3.prems"(1) v obtain m where kind: "map_of kvs ''kind'' = Some (JStr k)"
      and m: "map_of members k = Some m" and loc: "locate m v p = Some (s', v')"
      by (auto split: if_splits option.splits)
    from "3.prems"(2) v have "validates m v"
      by (simp add: validates_union_member [OF Some kind m])
    with "3.IH"(2) v Some kind m loc show ?thesis by blast
  next
    case None
    with "3.prems"(1) v obtain t xs i p' where f: "list_field s = Some (k, t)"
      and xs: "map_of kvs k = Some (JArr xs)" and p: "p = Idx i # p'" and i: "i < length xs"
      and loc: "locate t (xs ! i) p' = Some (s', v')"
      by (auto split: if_splits option.splits json.splits list.splits loc_item.splits)
    from "3.prems"(2) v have "validates t (xs ! i)"
      by (intro validates_list_field [OF f xs i]) simp
    then show ?thesis
      using i by (intro "3.IH"(1) [OF v None refl f refl refl xs refl p refl _ loc]) simp_all
  qed
qed

section \<open>Charts\<close>

lemma series_loop_eq_None:
  "series_loop n ss = None \<longleftrightarrow> (\<forall>s \<in> set ss. length (series_values s) = n)"
  by (induction ss) auto

lemma validate_series_lengths_eq_None:
  "validate_series_lengths cats ss = None \<longleftrightarrow>
     (cats = [] \<longrightarrow> ss = []) \<and> (\<forall>s \<in> set ss. length (series_values s) = length cats)"
  by (auto simp add: validate_series_lengths_def series_loop_eq_None)

text \<open>
  C2. When the input validates, every chart in it has arrays \<^verbatim>\<open>categories\<close> and
  \<^verbatim>\<open>series\<close> such that the series are empty when the categories are, and the
  \<^verbatim>\<open>values\<close> of every series are an array as long as the categories. The chart
  without categories and series validates (the witness); the two other examples are
  rejected by \<^verbatim>\<open>validate_series_lengths\<close>.
\<close>

theorem chart_lengths_enforced:
  assumes "CardNode_model_validate raw = Inr d"
    and "locate CardNode_t raw p = Some (ChartNode_t, JObj kvs)"
  shows "\<exists>cats ss. map_of kvs ''categories'' = Some (JArr cats)
           \<and> map_of kvs ''series'' = Some (JArr ss)
           \<and> (cats = [] \<longrightarrow> ss = [])
           \<and> (\<forall>s \<in> set ss. \<exists>skvs vs. s = JObj skvs \<and> map_of skvs ''values'' = Some (JArr vs)
                  \<and> length vs = length cats)"
proof -
  from assms(1) have "validates CardNode_t raw"
    by (simp add: CardNode_model_validate_def succeeds_def split: sum.splits)
  from locate_validates [OF assms(2) this] obtain n where "ChartNode_validate (JObj kvs) = Inr n"
    by (auto simp add: succeeds_iff)
  then obtain jc js cats' ss' where jc: "map_of kvs ''categories'' = Some jc"
    and cats': "validate_list validate_str jc = Inr cats'"
    and js: "map_of kvs ''series'' = Some js"
    and ss': "validate_list ChartSeries_validate js = Inr ss'"
    and len: "validate_series_lengths cats' ss' = None"
    unfolding ChartNode_eq_Inr by (elim exE conjE) (simp only: json.inject)
  from cats' obtain cats where cats: "jc = JArr cats" "length cats' = length cats"
    by (auto simp add: validate_list_eq_Inr dest: map_eq_imp_length_eq)
  from ss' obtain ss where ss: "js = JArr ss"
    by (auto simp add: validate_list_eq_Inr)
  have l: "length ss' = length ss"
    using ss' ss by (auto simp add: validate_list_eq_Inr dest: map_eq_imp_length_eq)
  have "\<exists>skvs vs. s = JObj skvs \<and> map_of skvs ''values'' = Some (JArr vs) \<and> length vs = length cats"
    if "s \<in> set ss" for s
  proof -
    from that obtain i where i: "i < length ss" "s = ss ! i"
      by (auto simp add: in_set_conv_nth)
    with ss ss' have "ChartSeries_validate s = Inr (ss' ! i)"
      by (simp add: validate_list_item(1))
    then obtain skvs jv xs where s: "s = JObj skvs" "map_of skvs ''values'' = Some jv"
      and xs: "validate_list validate_float jv = Inr xs" "series_values (ss' ! i) = xs"
      by (auto simp add: ChartSeries_eq_Inr)
    from xs(1) obtain vs where vs: "jv = JArr vs" "length xs = length vs"
      by (auto simp add: validate_list_eq_Inr dest: map_eq_imp_length_eq)
    from len i(1) l have "length (series_values (ss' ! i)) = length cats'"
      by (simp add: validate_series_lengths_eq_None)
    with s vs xs(2) cats(2) show ?thesis by simp
  qed
  moreover from len l cats(2) have "cats = [] \<longrightarrow> ss = []"
    by (auto simp add: validate_series_lengths_eq_None)
  ultimately show ?thesis
    using jc js cats(1) ss by simp
qed

theorem chart_lengths_enforced_witness:
  "CardNode_model_validate empty_chart_example = Inr (CardNode [ChartNode ''line'' [] []])
   \<and> locate CardNode_t empty_chart_example [Key ''children'', Idx 0, Key ''chart'']
       = Some (ChartNode_t, JObj [(''kind'', JStr ''chart''), (''chartType'', JStr ''line''),
                    (''categories'', JArr []), (''series'', JArr [])])
   \<and> (\<exists>cats ss. map_of [(''kind'', JStr ''chart''), (''chartType'', JStr ''line''),
                    (''categories'', JArr []), (''series'', JArr [])] ''categories'' = Some (JArr cats)
           \<and> map_of [(''kind'', JStr ''chart''), (''chartType'', JStr ''line''),
                    (''categories'', JArr []), (''series'', JArr [])] ''series'' = Some (JArr ss)
           \<and> cats = [] \<and> ss = [])"
proof -
  have v: "CardNode_model_validate empty_chart_example = Inr (CardNode [ChartNode ''line'' [] []])"
    by (simp add: empty_chart_example_def validate_simps)
  have l: "locate CardNode_t empty_chart_example [Key ''children'', Idx 0, Key ''chart'']
       = Some (ChartNode_t, JObj [(''kind'', JStr ''chart''), (''chartType'', JStr ''line''),
                    (''categories'', JArr []), (''series'', JArr [])])"
    by (simp add: empty_chart_example_def)
  from chart_lengths_enforced [OF v l] v l show ?thesis by simp
qed

lemma chart_examples_rejected:
  "CardNode_model_validate series_without_categories_example =
     Inl (ValidationError [([Key ''children'', Idx 0, Key ''chart''],
            Value_error ''categories must not be empty when series are provided'')])"
  "CardNode_model_validate short_series_example =
     Inl (ValidationError [([Key ''children'', Idx 0, Key ''chart''],
            Value_error ''every series.values array must have the same length as categories'')])"
  by (simp_all add: series_without_categories_example_def short_series_example_def validate_simps)

section \<open>Numeric fields\<close>






section \<open>Layout below a card below a panel\<close>

text \<open>
  C10. The exclusion of layout nodes from panels is not transitive: a card is a member
  of \<^verbatim>\<open>NonLayoutNode\<close>, and the children of a card are validated as \<^verbatim>\<open>Node\<close>, which has
  the member \<^verbatim>\<open>resizableLayout\<close>. The example, a panel whose child is a card that
  contains a layout, validates.
\<close>

theorem layout_below_card_in_panel_accepted:
  "CardNode_model_validate nested_layout_example =
     Inr (CardNode [ResizableLayoutNode ''horizontal''
            [Panel None None [CardNode [ResizableLayoutNode ''vertical'' []]]]])"
  by (simp add: nested_layout_example_def validate_simps)

end
